theory Spec2Isabelle
  imports Main "HOL-Library.Word" "HOL-Library.Monad_Syntax"
begin

unbundle bit_operations_syntax

section \<open>The EBYTE E32 LoRa driver (loraE32.py)\<close>

text \<open>
  The driver class \<^verbatim>\<open>ebyteE32\<close> of \<^verbatim>\<open>loraE32.py\<close> is a MicroPython program. Its
  methods are embedded as functions on an explicit driver state: the \<^verbatim>\<open>config\<close>
  dictionary, the debug flag, the two mode pins, the AUX input line, the UART and the
  file \<^verbatim>\<open>E32config.json\<close>. Python integers are \<open>int\<close>, byte strings are lists of
  8-bit words, the fixed texts of the tables and formats are \<open>string\<close>s, a payload text
  is the list of the code points of its characters, and a value that the code stores
  with more than one Python type is a \<open>pyval\<close>. An exception is the value \<open>None\<close> of
  an option type, caught where the source has its \<^verbatim>\<open>try\<close>/\<^verbatim>\<open>except\<close>.
\<close>

subsection \<open>Python's number formatting and parsing\<close>

text \<open>The digits of \<open>n\<close> in base \<open>b\<close>, most significant first.\<close>

function to_base :: "nat \<Rightarrow> nat \<Rightarrow> nat list" where
  "to_base b n = (if n < b \<or> b < 2 then [n] else to_base b (n div b) @ [n mod b])"
  by pat_completeness auto
termination
  by (relation "measure snd") auto

definition digit_chars :: "string \<Rightarrow> nat list \<Rightarrow> string" where
  "digit_chars alphabet ds = map (\<lambda>d. alphabet ! d) ds"

definition rjust :: "nat \<Rightarrow> char \<Rightarrow> string \<Rightarrow> string" where
  "rjust w c s = replicate (w - length s) c @ s"

text \<open>\<^verbatim>\<open>'%2X' % n\<close> for \<open>n \<ge> 0\<close>: upper-case hexadecimal, padded with spaces to width 2.\<close>

definition fmt_2X :: "nat \<Rightarrow> string" where
  "fmt_2X n = rjust 2 (CHR '' '') (digit_chars ''0123456789ABCDEF'' (to_base 16 n))"

text \<open>
  \<^verbatim>\<open>'{0:0wb}'.format(v)\<close>: binary, padded with zeros to width \<open>w\<close>; the sign of a
  negative value comes first and counts in the width.
\<close>

definition fmt_b :: "nat \<Rightarrow> int \<Rightarrow> string" where
  "fmt_b w v =
     (if v < 0 then CHR ''-'' # rjust (w - 1) (CHR ''0'') (digit_chars ''01'' (to_base 2 (nat (- v))))
      else rjust w (CHR ''0'') (digit_chars ''01'' (to_base 2 (nat v))))"

text \<open>\<^verbatim>\<open>str(v)\<close> and \<^verbatim>\<open>hex(v)\<close> of an integer.\<close>

definition py_str :: "int \<Rightarrow> string" where
  "py_str v =
     (if v < 0 then CHR ''-'' # digit_chars ''0123456789'' (to_base 10 (nat (- v)))
      else digit_chars ''0123456789'' (to_base 10 (nat v)))"

definition py_hex :: "int \<Rightarrow> string" where
  "py_hex v =
     (if v < 0 then ''-0x'' @ digit_chars ''0123456789abcdef'' (to_base 16 (nat (- v)))
      else ''0x'' @ digit_chars ''0123456789abcdef'' (to_base 16 (nat v)))"

text \<open>
  \<^verbatim>\<open>int(s, b)\<close>: white space around the number is skipped, a sign may come first, then
  digits of the base; anything else is a ValueError (\<open>None\<close>). With base 0 the base is read
  from the prefix \<^verbatim>\<open>0x\<close>, \<^verbatim>\<open>0o\<close> or \<^verbatim>\<open>0b\<close> and is 10 without one. The driver runs
  on MicroPython (it imports \<^verbatim>\<open>machine\<close>, \<^verbatim>\<open>utime\<close> and \<^verbatim>\<open>ujson\<close>), whose
  one-argument \<^verbatim>\<open>int(s)\<close> parses with base 0: \<^verbatim>\<open>encodeConfig\<close> relies on it when it
  calls \<^verbatim>\<open>int('0b...')\<close>. So \<^verbatim>\<open>int(s)\<close> of the source is \<open>py_int 0 s\<close> here.
\<close>

definition is_space :: "char \<Rightarrow> bool" where
  "is_space c = (c \<in> set [CHR '' '', CHR 0x09, CHR 0x0A, CHR 0x0B, CHR 0x0C, CHR 0x0D])"

definition digit_val :: "char \<Rightarrow> nat option" where
  "digit_val c =
     (let k = (of_char c :: nat) in
      if 48 \<le> k \<and> k \<le> 57 then Some (k - 48)
      else if 97 \<le> k \<and> k \<le> 122 then Some (k - 87)
      else if 65 \<le> k \<and> k \<le> 90 then Some (k - 55)
      else None)"

fun parse_digits :: "nat \<Rightarrow> nat \<Rightarrow> string \<Rightarrow> nat option" where
  "parse_digits b acc [] = Some acc"
| "parse_digits b acc (c # cs) =
     (case digit_val c of
        None \<Rightarrow> None
      | Some d \<Rightarrow> if d < b then parse_digits b (acc * b + d) cs else None)"

definition strip :: "string \<Rightarrow> string" where
  "strip s = rev (dropWhile is_space (rev (dropWhile is_space s)))"

fun base_prefix :: "nat \<Rightarrow> string \<Rightarrow> nat \<times> string" where
  "base_prefix b (c0 # c1 # cs) =
     (if c0 = CHR ''0'' \<and> (c1 = CHR ''x'' \<or> c1 = CHR ''X'') \<and> (b = 0 \<or> b = 16) then (16, cs)
      else if c0 = CHR ''0'' \<and> (c1 = CHR ''o'' \<or> c1 = CHR ''O'') \<and> (b = 0 \<or> b = 8) then (8, cs)
      else if c0 = CHR ''0'' \<and> (c1 = CHR ''b'' \<or> c1 = CHR ''B'') \<and> (b = 0 \<or> b = 2) then (2, cs)
      else (if b = 0 then 10 else b, c0 # c1 # cs))"
| "base_prefix b cs = (if b = 0 then 10 else b, cs)"

definition unsigned_int :: "nat \<Rightarrow> string \<Rightarrow> nat option" where
  "unsigned_int b s =
     (case base_prefix b s of (b', ds) \<Rightarrow> if ds = [] then None else parse_digits b' 0 ds)"

definition py_int :: "nat \<Rightarrow> string \<Rightarrow> int option" where
  "py_int b s =
     (case strip s of
        [] \<Rightarrow> None
      | c # cs \<Rightarrow>
          if c = CHR ''-'' then map_option (\<lambda>n. - int n) (unsigned_int b cs)
          else if c = CHR ''+'' then map_option int (unsigned_int b cs)
          else map_option int (unsigned_int b (c # cs)))"

subsection \<open>The checksum\<close>

text \<open>
  \<^verbatim>\<open>calcChecksum\<close> (lines 285-288). The payload is given by the code points of its
  characters, the values \<^verbatim>\<open>ord(c)\<close> that the source sums. The result is the text that
  \<^verbatim>\<open>'%2X'\<close> prints; both callers read it back with \<^verbatim>\<open>int(..., 16)\<close>, which is
  \<open>checksumByte\<close>.
\<close>

definition calcChecksum :: "nat list \<Rightarrow> string" where
  "calcChecksum payload = fmt_2X (nat ((- (int (sum_list payload) mod 256)) AND 0xFF))"

definition checksumByte :: "nat list \<Rightarrow> int option" where
  "checksumByte payload = py_int 16 (calcChecksum payload)"

subsection \<open>Values, tables and the configuration\<close>

text \<open>
  A value that the code stores with more than one Python type: \<^verbatim>\<open>None\<close>, an integer
  or a string.
\<close>

datatype pyval = PNone | PInt int | PStr string

type_synonym byte = "8 word"

text \<open>
  The dictionary \<^verbatim>\<open>self.config\<close>. Its keys are fixed by \<^verbatim>\<open>__init__\<close> and never
  added or removed afterwards, so it is a record of its values. \<^verbatim>\<open>decodeConfig\<close> can
  store \<^verbatim>\<open>None\<close> in \<open>parity\<close> and \<open>datarate\<close>, and \<^verbatim>\<open>calcFrequency\<close> a string
  in \<open>channel\<close>; the constructor stores \<open>baudrate\<close> as given.
\<close>

record configuration =
  model :: string
  port :: string
  baudrate :: pyval
  parity :: pyval
  datarate :: pyval
  address :: int
  channel :: pyval
  frequency :: int
  transmode :: int
  iomode :: int
  wutime :: int
  fec :: int
  txpower :: int

text \<open>The class constants (lines 69-114) that the embedded methods read.\<close>

definition PARSTR_items :: "(string \<times> string) list" where
  "PARSTR_items = [(''8N1'', ''00''), (''8O1'', ''01''), (''8E1'', ''10'')]"

definition BAUDRATE_items :: "(int \<times> string) list" where
  "BAUDRATE_items = [(1200, ''000''), (2400, ''001''), (4800, ''010''), (9600, ''011''),
                     (19200, ''100''), (38400, ''101''), (57600, ''110''), (115200, ''111'')]"

definition DATARATE_items :: "(string \<times> string) list" where
  "DATARATE_items = [(''0.3k'', ''000''), (''1.2k'', ''001''), (''2.4k'', ''010''),
                     (''4.8k'', ''011''), (''9.6k'', ''100''), (''19.2k'', ''101'')]"

definition PARSTR :: "string \<rightharpoonup> string" where
  "PARSTR = map_of PARSTR_items"

definition BAUDRATE :: "int \<rightharpoonup> string" where
  "BAUDRATE = map_of BAUDRATE_items"

definition DATARATE :: "string \<rightharpoonup> string" where
  "DATARATE = map_of DATARATE_items"

text \<open>
  The inverted tables \<^verbatim>\<open>{ v:k for k, v in T.items() }\<close>: a later item would overwrite
  an earlier one with the same value.
\<close>

definition inverted :: "('k \<times> 'v) list \<Rightarrow> ('v \<rightharpoonup> 'k)" where
  "inverted items = map_of (rev (map (\<lambda>(k, v). (v, k)) items))"

definition PARINV :: "string \<rightharpoonup> string" where
  "PARINV = inverted PARSTR_items"

definition BAUDRINV :: "string \<rightharpoonup> int" where
  "BAUDRINV = inverted BAUDRATE_items"

definition DATARINV :: "string \<rightharpoonup> string" where
  "DATARINV = inverted DATARATE_items"

definition CMDS :: "string \<rightharpoonup> int" where
  "CMDS = map_of [(''setConfigPwrDwnSave'', 0xC0), (''getConfig'', 0xC1),
                  (''setConfigPwrDwnNoSave'', 0xC2), (''getVersion'', 0xC3), (''reset'', 0xC4)]"

definition OPERMODE :: "string \<rightharpoonup> string" where
  "OPERMODE = map_of [(''normal'', ''00''), (''wakeup'', ''10''), (''powersave'', ''01''),
                      (''sleep'', ''11'')]"

definition FREQ :: "int \<rightharpoonup> int list" where
  "FREQ = map_of [(170, [160, 170, 173]), (400, [410, 470, 525]), (433, [410, 433, 441]),
                  (868, [862, 868, 893]), (915, [900, 915, 931])]"

definition FREQV :: "string \<rightharpoonup> int" where
  "FREQV = map_of [(''0x32'', 433), (''0x38'', 470), (''0x45'', 868), (''0x44'', 915),
                   (''0x46'', 170)]"

definition TXPOWER :: "int \<rightharpoonup> string list" where
  "TXPOWER = map_of [(0, [''20dBm'', ''27dBm'', ''30dBm'']), (1, [''17dBm'', ''24dBm'', ''27dBm'']),
                     (2, [''14dBm'', ''21dBm'', ''24dBm'']), (3, [''10dBm'', ''18dBm'', ''21dBm''])]"

text \<open>\<^verbatim>\<open>T.get(v)\<close> with a key \<open>v\<close> of any type: a key of the wrong type is not found.\<close>

definition get_str :: "(string \<rightharpoonup> 'a) \<Rightarrow> pyval \<Rightarrow> 'a option" where
  "get_str T v = (case v of PStr k \<Rightarrow> T k | _ \<Rightarrow> None)"

definition get_int :: "(int \<rightharpoonup> 'a) \<Rightarrow> pyval \<Rightarrow> 'a option" where
  "get_int T v = (case v of PInt k \<Rightarrow> T k | _ \<Rightarrow> None)"

text \<open>Python's slice \<^verbatim>\<open>s[a:b]\<close> for \<open>0 \<le> a \<le> b\<close>.\<close>

definition slice :: "nat \<Rightarrow> nat \<Rightarrow> 'a list \<Rightarrow> 'a list" where
  "slice a b s = take (b - a) (drop a s)"

text \<open>
  \<^verbatim>\<open>bytes(xs)\<close> of a list: every element must be an integer from 0 to 255, otherwise
  it raises.
\<close>

fun py_bytes :: "pyval list \<Rightarrow> byte list option" where
  "py_bytes [] = Some []"
| "py_bytes (PInt v # xs) =
     (if 0 \<le> v \<and> v < 256 then map_option ((#) (word_of_int v)) (py_bytes xs) else None)"
| "py_bytes (_ # xs) = None"

subsection \<open>The configuration register codec\<close>

text \<open>
  \<^verbatim>\<open>encodeConfig\<close> (lines 424-450). It raises when a table has no entry for parity,
  baudrate or datarate (a string is added to \<^verbatim>\<open>None\<close>) and when \<^verbatim>\<open>int(bits)\<close>
  cannot read the assembled text.
\<close>

definition encodeConfig :: "configuration \<Rightarrow> pyval list option" where
  "encodeConfig cfg = do {
     p \<leftarrow> get_str PARSTR (parity cfg);
     b \<leftarrow> get_int BAUDRATE (baudrate cfg);
     d \<leftarrow> get_str DATARATE (datarate cfg);
     speed \<leftarrow> py_int 0 (''0b'' @ p @ b @ d);
     opt \<leftarrow> py_int 0 (''0b'' @ py_str (transmode cfg) @ py_str (iomode cfg)
                        @ fmt_b 3 (wutime cfg) @ py_str (fec cfg) @ fmt_b 2 (txpower cfg));
     Some [PInt 0xC0, PInt (address cfg div 256), PInt (address cfg mod 256), PInt speed,
           channel cfg, PInt opt]
   }"

text \<open>
  \<^verbatim>\<open>decodeConfig\<close> (lines 402-421), on a byte string. Reading \<^verbatim>\<open>message[5]\<close> of a
  shorter message raises; both callers pass a message of length 6. The table lookups use
  \<^verbatim>\<open>get\<close>, which yields \<^verbatim>\<open>None\<close> for a bit pattern without entry.
\<close>

definition opt_str :: "string option \<Rightarrow> pyval" where
  "opt_str v = (case v of None \<Rightarrow> PNone | Some k \<Rightarrow> PStr k)"

definition opt_int :: "int option \<Rightarrow> pyval" where
  "opt_int v = (case v of None \<Rightarrow> PNone | Some k \<Rightarrow> PInt k)"

definition decodeConfig :: "byte list \<Rightarrow> configuration \<Rightarrow> configuration option" where
  "decodeConfig message cfg =
     (if length message < 6 then None
      else do {
        let speed = fmt_b 8 (uint (message ! 3));
        let bits = fmt_b 8 (uint (message ! 5));
        tm \<leftarrow> py_int 0 (slice 0 1 bits);
        io \<leftarrow> py_int 0 (slice 1 2 bits);
        wu \<leftarrow> py_int 0 (slice 2 5 bits);
        fe \<leftarrow> py_int 0 (slice 5 6 bits);
        tx \<leftarrow> py_int 0 (drop 6 bits);
        Some (cfg\<lparr>address := uint (message ! 1) * 256 + uint (message ! 2),
                  parity := opt_str (PARINV (slice 0 2 speed)),
                  baudrate := opt_int (BAUDRINV (slice 2 5 speed)),
                  datarate := opt_str (DATARINV (drop 5 speed)),
                  channel := PInt (uint (message ! 4)),
                  transmode := tm, iomode := io, wutime := wu, fec := fe, txpower := tx\<rparr>)
      })"

text \<open>
  \<^verbatim>\<open>showConfig\<close> (lines 453-470) only prints. The model keeps whether it returns:
  \<^verbatim>\<open>'0x%02x'\<close> and \<^verbatim>\<open>'%d'\<close> raise on a value that is not a number, and
  \<^verbatim>\<open>TXPOWER.get(...)[maxp]\<close> raises when the table has no entry for \<open>txpower\<close>.
\<close>

definition showConfig :: "configuration \<Rightarrow> unit option" where
  "showConfig cfg =
     (case (channel cfg, baudrate cfg, TXPOWER (txpower cfg)) of
        (PInt _, PInt _, Some _) \<Rightarrow> Some ()
      | _ \<Rightarrow> None)"

text \<open>
  \<^verbatim>\<open>calcFrequency\<close> (lines 500-512). The band is found from the digits of the model
  name before its first \<^verbatim>\<open>T\<close>; a model without band, or a channel that is not a number,
  raises.
\<close>

definition calcFrequency :: "configuration \<Rightarrow> configuration option" where
  "calcFrequency cfg = do {
     freqkey \<leftarrow> py_int 0 (takeWhile (\<lambda>c. c \<noteq> CHR ''T'') (model cfg));
     band \<leftarrow> FREQ freqkey;
     ch \<leftarrow> (case channel cfg of PInt c \<Rightarrow> Some c | _ \<Rightarrow> None);
     if length band < 3 then None
     else let minfreq = band ! 0; maxfreq = band ! 2; freq = minfreq + ch in
       if freq > maxfreq
       then Some (cfg\<lparr>frequency := maxfreq, channel := PStr (py_hex (maxfreq - minfreq))\<rparr>)
       else Some (cfg\<lparr>frequency := freq\<rparr>)
   }"

subsection \<open>The driver state and the hardware\<close>

text \<open>
  The state of one driver object and of what it is wired to, for a driver that
  \<^verbatim>\<open>start()\<close> has bound to its pins and UART:
  \<^item> \<open>M0\<close>, \<open>M1\<close>: the levels last written to the two mode pins;
  \<^item> \<open>AUX\<close>, \<open>polls\<close>: the level of the AUX line at each reading, and the number of
    readings (\<^verbatim>\<open>self.AUX.value()\<close>) made so far;
  \<^item> \<open>written\<close>: the byte strings passed to \<^verbatim>\<open>self.serdev.write\<close>, in order;
  \<^item> \<open>pending\<close>: what the coming calls of \<^verbatim>\<open>self.serdev.read()\<close> return, in order
    (\<open>None\<close> when nothing was received, also once the list is used up);
  \<^item> \<open>E32config_json\<close>: the configuration last dumped to the file
    \<^verbatim>\<open>E32config.json\<close>, if any.
  The sleeps of \<^verbatim>\<open>utime.sleep_ms\<close> and the debug prints have no effect on this state.
\<close>

record driver =
  config :: configuration
  debug :: bool
  M0 :: int
  M1 :: int
  AUX :: "nat \<Rightarrow> bool"
  polls :: nat
  written :: "byte list list"
  pending :: "byte list option list"
  E32config_json :: "configuration option"

definition serdev_write :: "byte list \<Rightarrow> driver \<Rightarrow> driver" where
  "serdev_write bs s = s\<lparr>written := written s @ [bs]\<rparr>"

definition serdev_read :: "driver \<Rightarrow> byte list option \<times> driver" where
  "serdev_read s =
     (case pending s of [] \<Rightarrow> (None, s) | r # rs \<Rightarrow> (r, s\<lparr>pending := rs\<rparr>))"

text \<open>
  \<^verbatim>\<open>setOperationMode\<close> (lines 546-554). Every entry of \<^verbatim>\<open>OPERMODE\<close>, and the default
  \<^verbatim>\<open>'00'\<close>, is two binary digits, so \<^verbatim>\<open>int(bits[0])\<close> and \<^verbatim>\<open>int(bits[1])\<close> are
  the values of these digits.
\<close>

definition digit_level :: "char \<Rightarrow> int" where
  "digit_level c = (case py_int 0 [c] of Some v \<Rightarrow> v | None \<Rightarrow> 0)"

definition setOperationMode :: "string \<Rightarrow> driver \<Rightarrow> driver" where
  "setOperationMode mode s =
     (let bits = (case OPERMODE mode of Some b \<Rightarrow> b | None \<Rightarrow> ''00'')
      in s\<lparr>M0 := digit_level (bits ! 0), M1 := digit_level (bits ! 1)\<rparr>)"

text \<open>
  \<^verbatim>\<open>waitForDeviceIdle\<close> (lines 473-484). The loop reads the AUX line at the head of
  each iteration; \<open>p\<close> is the number of readings made before, and the result is the
  number made when the loop is left. The loop is left only through the test of the line
  or through \<^verbatim>\<open>count == 10\<close>, so it is defined as a partial function: \<open>None\<close> means
  that it does not return.
\<close>

partial_function (option) idle_loop :: "(nat \<Rightarrow> bool) \<Rightarrow> nat \<Rightarrow> int \<Rightarrow> nat option" where
  "idle_loop aux p count =
     (if \<not> aux p
      then (let count' = count + 1 in
            if count' = 10 then Some (p + 1) else idle_loop aux (p + 1) count')
      else Some (p + 1))"

declare idle_loop.simps [code]

definition waitForDeviceIdle :: "driver \<Rightarrow> driver option" where
  "waitForDeviceIdle s = map_option (\<lambda>p. s\<lparr>polls := p\<rparr>) (idle_loop (AUX s) (polls s) 0)"

subsection \<open>The command channel\<close>

text \<open>
  What \<^verbatim>\<open>sendCommand\<close> returns: the bytes read, \<^verbatim>\<open>None\<close> when nothing was read, the
  empty string after a reset, or the string \<^verbatim>\<open>"NOK"\<close> after an exception.
\<close>

datatype cmd_result = Bytes "byte list" | NoData | EmptyStr | NOK_str

text \<open>\<^verbatim>\<open>len(result)\<close>; it raises on \<^verbatim>\<open>None\<close>.\<close>

fun len_result :: "cmd_result \<Rightarrow> nat option" where
  "len_result (Bytes b) = Some (length b)"
| "len_result NoData = None"
| "len_result EmptyStr = Some 0"
| "len_result NOK_str = Some 3"

text \<open>
  \<^verbatim>\<open>sendCommand\<close> (lines 319-353). An unknown command gives \<^verbatim>\<open>[None]*3\<close>, on which
  \<^verbatim>\<open>bytes\<close> raises. An exception leaves the mode pins in sleep mode and returns
  \<^verbatim>\<open>"NOK"\<close>.
\<close>

definition sendCommand :: "string \<Rightarrow> driver \<Rightarrow> cmd_result \<times> driver" where
  "sendCommand command s =
     (let s1 = setOperationMode ''sleep'' s;
          HexCmd = (case CMDS command of
                      Some h \<Rightarrow>
                        if h \<in> set [0xC0, 0xC2]
                        then map_option (\<lambda>m. m[0 := PInt h]) (encodeConfig (config s1))
                        else Some (replicate 3 (PInt h))
                    | None \<Rightarrow> Some (replicate 3 PNone))
      in case Option.bind HexCmd py_bytes of
           None \<Rightarrow> (NOK_str, s1)
         | Some bs \<Rightarrow>
             let s2 = serdev_write bs s1 in
             if command = ''reset'' then (EmptyStr, s2)
             else (case serdev_read s2 of
                     (None, s3) \<Rightarrow> (NoData, s3)
                   | (Some r, s3) \<Rightarrow> (Bytes r, s3)))"

definition saveConfigToJson :: "driver \<Rightarrow> driver" where
  "saveConfigToJson s = s\<lparr>E32config_json := Some (config s)\<rparr>"

text \<open>
  \<^verbatim>\<open>setConfig\<close> (lines 522-543). A result of length 6 is a byte string (the strings
  that \<^verbatim>\<open>sendCommand\<close> returns have length 0 and 3). The response is decoded and shown
  only under \<^verbatim>\<open>if self.debug\<close>; an exception there is caught after \<^verbatim>\<open>decodeConfig\<close>
  has already stored the decoded values.
\<close>

definition setConfig :: "string \<Rightarrow> driver \<Rightarrow> string \<times> driver" where
  "setConfig save_cmd s =
     (case sendCommand save_cmd s of (result, s1) \<Rightarrow>
        (case len_result result of
           None \<Rightarrow> (''NOK'', s1)
         | Some n \<Rightarrow>
             if n \<noteq> 6 then (''NOK'', s1)
             else (case result of
                     Bytes message \<Rightarrow>
                       if debug s1
                       then (case decodeConfig message (config s1) of
                               None \<Rightarrow> (''NOK'', s1)
                             | Some c \<Rightarrow>
                                 (case showConfig c of
                                    None \<Rightarrow> (''NOK'', s1\<lparr>config := c\<rparr>)
                                  | Some _ \<Rightarrow> (''OK'', saveConfigToJson (s1\<lparr>config := c\<rparr>))))
                       else (''OK'', saveConfigToJson s1)
                   | _ \<Rightarrow> (''NOK'', s1))))"

text \<open>\<^verbatim>\<open>setTransmissionMode\<close> (lines 515-519).\<close>

definition setTransmissionMode :: "int \<Rightarrow> driver \<Rightarrow> driver" where
  "setTransmissionMode tm s =
     (if tm \<noteq> transmode (config s)
      then snd (setConfig ''setConfigPwrDwnSave'' (s\<lparr>config := (config s)\<lparr>transmode := tm\<rparr>\<rparr>))
      else s)"

text \<open>
  \<^verbatim>\<open>getVersion\<close> (lines 357-379). \<^verbatim>\<open>'%d' % freq\<close> raises when the lookup gave the
  string \<^verbatim>\<open>'unknown'\<close>; it is evaluated only under \<^verbatim>\<open>if result[0] == 0xc3\<close>.
\<close>

definition getVersion :: "driver \<Rightarrow> string \<times> driver" where
  "getVersion s =
     (case sendCommand ''getVersion'' s of (result, s1) \<Rightarrow>
        (case len_result result of
           None \<Rightarrow> (''NOK'', s1)
         | Some n \<Rightarrow>
             if n \<noteq> 4 then (''NOK'', s1)
             else (case result of
                     Bytes r \<Rightarrow>
                       let freq = (case FREQV (py_hex (uint (r ! 1))) of
                                     Some f \<Rightarrow> PInt f | None \<Rightarrow> PStr ''unknown'')
                       in if uint (r ! 0) = 0xC3
                          then (case freq of PInt f \<Rightarrow> (''OK'', s1) | _ \<Rightarrow> (''NOK'', s1))
                          else (''OK'', s1)
                   | _ \<Rightarrow> (''NOK'', s1))))"

subsection \<open>The payload transport\<close>

text \<open>
  The mode decision that opens \<^verbatim>\<open>sendMessage\<close> and \<^verbatim>\<open>recvMessage\<close> (lines 193-200
  and 242-249): transparent mode 0 for the driver's own address and channel, fixed mode 1
  otherwise.
\<close>

definition transmission_for :: "int \<Rightarrow> int \<Rightarrow> driver \<Rightarrow> int" where
  "transmission_for a c s =
     (if a = address (config s) \<and> PInt c = channel (config s) then 0 else 1)"

text \<open>
  The payload argument of \<^verbatim>\<open>sendMessage\<close>: a dictionary or any other object.
  \<^verbatim>\<open>ujson.dumps\<close> is a parameter: it gives the code points of the JSON text, or raises.
\<close>

datatype 'd payload = Dict 'd | NotDict

text \<open>
  \<^verbatim>\<open>sendMessage\<close> (lines 184-230). The result \<open>None\<close> means that the call does not
  return, which could only come from the wait for the idle device.
\<close>

definition sendMessage ::
  "('d \<Rightarrow> nat list option) \<Rightarrow> int \<Rightarrow> int \<Rightarrow> 'd payload \<Rightarrow> bool \<Rightarrow> driver
     \<Rightarrow> (string \<times> driver) option" where
  "sendMessage dumps to_address to_channel payload useChecksum s =
     (let s1 = setTransmissionMode (transmission_for to_address to_channel s) s;
          s2 = setOperationMode ''wakeup'' s1
      in case payload of
           NotDict \<Rightarrow> Some (''NOK'', s2)
         | Dict d \<Rightarrow>
             (case dumps d of
                None \<Rightarrow> Some (''NOK'', s2)
              | Some js_payload \<Rightarrow>
                  let header = (if transmode (config s2) = 1
                                then [PInt (to_address div 256), PInt (to_address mod 256),
                                      PInt to_channel]
                                else []);
                      msg = header @ map (\<lambda>c. PInt (int c)) js_payload
                  in (case (if useChecksum
                            then map_option (\<lambda>c. msg @ [PInt c]) (checksumByte js_payload)
                            else Some msg) of
                        None \<Rightarrow> Some (''NOK'', s2)
                      | Some msg' \<Rightarrow>
                          (case waitForDeviceIdle s2 of
                             None \<Rightarrow> None
                           | Some s3 \<Rightarrow>
                               (case py_bytes msg' of
                                  None \<Rightarrow> Some (''NOK'', s3)
                                | Some bs \<Rightarrow> Some (''OK'', serdev_write bs s3))))))"

text \<open>
  What \<^verbatim>\<open>recvMessage\<close> returns: the parsed message, the dictionary
  \<^verbatim>\<open>{'msg': None}\<close> or \<^verbatim>\<open>{'msg': text}\<close>, or the string \<^verbatim>\<open>"NOK"\<close>.
\<close>

datatype 'j recv_result = Parsed 'j | Msg "string option" | RecvNOK

text \<open>
  \<^verbatim>\<open>recvMessage\<close> (lines 233-282). \<^verbatim>\<open>ujson.loads\<close> is a parameter, on the code
  points of the text; it raises on malformed text. \<open>decode_received\<close> is the branch of
  lines 262-277 that handles the bytes read.
\<close>

definition decode_received :: "(nat list \<Rightarrow> 'j option) \<Rightarrow> bool \<Rightarrow> byte list \<Rightarrow> 'j recv_result" where
  "decode_received loads useChecksum js_payload =
     (let msg = map unat js_payload in
      if useChecksum
      then (case checksumByte msg of
              None \<Rightarrow> RecvNOK
            | Some cs \<Rightarrow>
                if cs \<noteq> 0 then Msg (Some (''corrupt message, checksum '' @ py_str cs))
                else (case loads (butlast msg) of None \<Rightarrow> RecvNOK | Some m \<Rightarrow> Parsed m))
      else (case loads msg of None \<Rightarrow> RecvNOK | Some m \<Rightarrow> Parsed m))"

definition recvMessage ::
  "(nat list \<Rightarrow> 'j option) \<Rightarrow> int \<Rightarrow> int \<Rightarrow> bool \<Rightarrow> driver \<Rightarrow> 'j recv_result \<times> driver" where
  "recvMessage loads from_address from_channel useChecksum s =
     (let s1 = setTransmissionMode (transmission_for from_address from_channel s) s;
          s2 = setOperationMode ''normal'' s1
      in case serdev_read s2 of
           (None, s3) \<Rightarrow> (Msg None, s3)
         | (Some js_payload, s3) \<Rightarrow> (decode_received loads useChecksum js_payload, s3))"

subsection \<open>The constructor and a driver on the bench\<close>

text \<open>
  The configuration that \<^verbatim>\<open>__init__\<close> builds (lines 117-133): the arguments, the
  frequency from \<^verbatim>\<open>calcFrequency\<close>, then the fixed defaults of the option fields.
\<close>

definition new_config ::
  "string \<Rightarrow> string \<Rightarrow> int \<Rightarrow> string \<Rightarrow> string \<Rightarrow> int \<Rightarrow> int \<Rightarrow> configuration option" where
  "new_config Model Port Baudrate Parity AirDataRate Address Channel =
     map_option (\<lambda>cfg. cfg\<lparr>transmode := 0, iomode := 1, wutime := 0, fec := 1, txpower := 0\<rparr>)
       (calcFrequency \<lparr>model = Model, port = Port, baudrate = PInt Baudrate,
          parity = PStr Parity, datarate = PStr AirDataRate, address = Address,
          channel = PInt Channel, frequency = 0, transmode = 0, iomode = 1, wutime = 0,
          fec = 1, txpower = 0\<rparr>)"

text \<open>The configuration of \<^verbatim>\<open>ebyteE32(M0, M1, AUX)\<close> with every default argument.\<close>

definition default_config :: configuration where
  "default_config =
     \<lparr>model = ''868T20D'', port = ''U1'', baudrate = PInt 9600, parity = PStr ''8N1'',
      datarate = PStr ''2.4k'', address = 0, channel = PInt 6, frequency = 868,
      transmode = 0, iomode = 1, wutime = 0, fec = 1, txpower = 0\<rparr>"

text \<open>
  A driver with the default configuration whose module is idle at every reading of AUX
  and answers the coming reads of the UART with the given responses.
\<close>

definition idle_line :: "nat \<Rightarrow> bool" where
  "idle_line n = True"

definition bench_driver :: "bool \<Rightarrow> byte list option list \<Rightarrow> driver" where
  "bench_driver dbg responses =
     \<lparr>config = default_config, debug = dbg, M0 = 0, M1 = 0, AUX = idle_line, polls = 0,
      written = [], pending = responses, E32config_json = None\<rparr>"

section \<open>Properties\<close>

subsection \<open>Formatting and parsing\<close>

lemma nat_lt_16_cases:
  "d < 16 \<Longrightarrow> d \<in> {0, 1, 2, 3, 4, 5, 6, 7, 8, 9, 10, 11, 12, 13, 14, 15::nat}"
  by simp arith

lemma hex_digit_props:
  assumes "d < 16"
  shows "digit_val (''0123456789ABCDEF'' ! d) = Some d"
    and "\<not> is_space (''0123456789ABCDEF'' ! d)"
    and "''0123456789ABCDEF'' ! d \<noteq> CHR ''-''"
    and "''0123456789ABCDEF'' ! d \<noteq> CHR ''+''"
    and "(''0123456789ABCDEF'' ! d = CHR ''0'') = (d = 0)"
  using nat_lt_16_cases [OF assms]
  by (auto simp: digit_val_def is_space_def)

lemma is_space_blank: "is_space CHR '' ''"
  by (simp add: is_space_def)

lemma to_base_two: "16 \<le> n \<Longrightarrow> n < 256 \<Longrightarrow> to_base 16 n = [n div 16, n mod 16]"
  by (subst to_base.simps) (simp add: less_mult_imp_div_less)

lemma py_int_two_hex_chars:
  assumes "digit_val a = Some h" "digit_val b = Some l" "h < 16" "l < 16"
    and "\<not> is_space a" "\<not> is_space b" "a \<noteq> CHR ''-''" "a \<noteq> CHR ''+''" "a \<noteq> CHR ''0''"
  shows "py_int 16 [a, b] = Some (int (h * 16 + l))"
  using assms by (simp add: py_int_def strip_def unsigned_int_def)

lemma py_int_one_hex_char:
  assumes "digit_val b = Some l" "l < 16"
    and "\<not> is_space b" "b \<noteq> CHR ''-''" "b \<noteq> CHR ''+''"
  shows "py_int 16 [CHR '' '', b] = Some (int l)"
  using assms by (simp add: py_int_def strip_def unsigned_int_def is_space_blank)

lemma py_int_fmt_2X:
  assumes "n < 256"
  shows "py_int 16 (fmt_2X n) = Some (int n)"
proof (cases "n < 16")
  case True
  then have "fmt_2X n = [CHR '' '', ''0123456789ABCDEF'' ! n]"
    by (simp add: fmt_2X_def rjust_def digit_chars_def)
  moreover have "py_int 16 [CHR '' '', ''0123456789ABCDEF'' ! n] = Some (int n)"
    using hex_digit_props [OF True] True by (intro py_int_one_hex_char) simp_all
  ultimately show ?thesis by simp
next
  case False
  then have tb: "to_base 16 n = [n div 16, n mod 16]"
    using assms by (simp add: to_base_two)
  have h: "n div 16 < 16" and l: "n mod 16 < 16" and h0: "n div 16 \<noteq> 0"
    using assms False by auto
  have f: "fmt_2X n = [''0123456789ABCDEF'' ! (n div 16), ''0123456789ABCDEF'' ! (n mod 16)]"
    unfolding fmt_2X_def tb by (simp add: rjust_def digit_chars_def del: to_base.simps)
  have "py_int 16 [''0123456789ABCDEF'' ! (n div 16), ''0123456789ABCDEF'' ! (n mod 16)]
          = Some (int (n div 16 * 16 + n mod 16))"
    using hex_digit_props [OF h] hex_digit_props [OF l] h l h0
    by (intro py_int_two_hex_chars) simp_all
  then show ?thesis unfolding f by simp
qed

lemma and_255_mod: "(k::int) AND 0xFF = k mod 256"
proof -
  have "(0xFF::int) = mask 8" by (simp add: mask_eq_exp_minus_1)
  then have "k AND 0xFF = take_bit 8 k" by (simp add: take_bit_eq_mask)
  then show ?thesis by (simp add: take_bit_eq_mod)
qed

lemma word_of_int_take_bit_8:
  "take_bit 8 (a::int) = take_bit 8 b \<Longrightarrow> (word_of_int a :: 8 word) = word_of_int b"
  by (simp only: word_of_int_eq_iff) simp

lemma checksum_mod_neg: "(- (s mod 256)) mod 256 = (- s) mod (256::int)"
  by (simp add: mod_minus_eq)

lemma word_checksum_neg:
  "(word_of_int ((- (int n mod 256)) mod 256) :: 8 word) = - word_of_nat n"
proof -
  have "(word_of_int ((- (int n mod 256)) mod 256) :: 8 word) = word_of_int (- int n)"
    unfolding checksum_mod_neg by (rule word_of_int_take_bit_8) (simp add: take_bit_eq_mod)
  then show ?thesis by simp
qed

lemma checksum_sum_zero: "(s + (- (s mod 256)) mod 256) mod 256 = (0::int)"
  unfolding checksum_mod_neg by (metis add.right_inverse mod_add_right_eq mod_0)

lemma checksum_append_zero:
  assumes "(int s + c) mod 256 = 0" "0 \<le> c"
  shows "(s + nat c) mod 256 = 0"
proof -
  have "int ((s + nat c) mod 256) = (int s + c) mod 256"
    using assms(2) by (simp add: zmod_int)
  then show ?thesis using assms(1) by simp
qed

lemma checksumByte_value:
  "checksumByte P = Some ((- (int (sum_list P) mod 256)) mod 256)"
proof -
  let ?v = "(- (int (sum_list P) mod 256)) mod 256"
  have b: "0 \<le> ?v" "?v < 256" by simp_all
  then have "nat ?v < 256" by linarith
  then have "py_int 16 (fmt_2X (nat ?v)) = Some (int (nat ?v))" by (rule py_int_fmt_2X)
  then show ?thesis using b by (simp add: checksumByte_def calcChecksum_def and_255_mod)
qed

subsection \<open>C2: the checksum makes the sum zero\<close>

text \<open>
  C2. For every payload text \<open>P\<close>, the checksum byte that \<^verbatim>\<open>calcChecksum\<close> computes
  (read back from its two hexadecimal characters) is the two's complement of the sum of
  the character values of \<open>P\<close> modulo 256, masked to 8 bits; and the character values of
  \<open>P\<close> followed by this byte sum to 0 modulo 256.
\<close>

theorem calcChecksum_zero_sum:
  "\<exists>c. checksumByte P = Some c
     \<and> c = (- (int (sum_list P) mod 256)) AND 0xFF
     \<and> 0 \<le> c \<and> c < 256
     \<and> (word_of_int c :: 8 word) = - word_of_nat (sum_list P)
     \<and> (int (sum_list P) + c) mod 256 = 0
     \<and> sum_list (P @ [nat c]) mod 256 = 0"
proof -
  let ?s = "int (sum_list P)"
  let ?c = "(- (?s mod 256)) mod 256"
  have c1: "checksumByte P = Some ?c" by (rule checksumByte_value)
  have c2: "?c = (- (?s mod 256)) AND 0xFF" by (simp only: and_255_mod)
  have c3: "0 \<le> ?c" "?c < 256" by simp_all
  have c4: "(word_of_int ?c :: 8 word) = - word_of_nat (sum_list P)"
    by (rule word_checksum_neg)
  have c5: "(?s + ?c) mod 256 = 0" by (rule checksum_sum_zero)
  have "(sum_list P + nat ?c) mod 256 = 0"
    using c5 c3(1) by (rule checksum_append_zero)
  then have c6: "sum_list (P @ [nat ?c]) mod 256 = 0" by simp
  show ?thesis
    by (rule exI [of _ ?c]) (intro conjI c1 c2 c3 c4 c5 c6)
qed

subsection \<open>The default configuration\<close>

lemma new_config_default:
  "new_config ''868T20D'' ''U1'' 9600 ''8N1'' ''2.4k'' 0 6 = Some default_config"
  by code_simp

subsection \<open>C6: the wait for the idle device is bounded\<close>

lemma idle_loop_bound:
  "0 \<le> count \<Longrightarrow> count < 10 \<Longrightarrow>
     \<exists>q. idle_loop aux p count = Some q \<and> p < q \<and> q \<le> p + nat (10 - count)"
proof (induction "nat (9 - count)" arbitrary: p count)
  case 0
  then have "count = 9" by simp
  then show ?case by (subst idle_loop.simps) simp
next
  case (Suc k)
  then have c: "count + 1 \<noteq> 10" "0 \<le> count + 1" "count + 1 < 10" "k = nat (9 - (count + 1))"
    by simp_all
  show ?case
  proof (cases "aux p")
    case True
    then show ?thesis using Suc.prems by (subst idle_loop.simps) simp
  next
    case False
    from Suc.hyps(1) [OF c(4) c(2) c(3), of "p + 1"]
    obtain q where q: "idle_loop aux (p + 1) (count + 1) = Some q" "p + 1 < q"
      "q \<le> p + 1 + nat (10 - (count + 1))" by blast
    have "idle_loop aux p count = Some q"
      using False c(1) q(1) by (subst idle_loop.simps) (simp add: Let_def)
    moreover have "p < q" using q(2) by simp
    moreover have "q \<le> p + nat (10 - count)" using q(3) Suc.prems by simp
    ultimately show ?thesis by blast
  qed
qed

lemma idle_loop_returns:
  "\<exists>q. idle_loop aux p 0 = Some q \<and> p < q \<and> q \<le> p + 10"
  using idle_loop_bound [of 0 aux p] by simp

text \<open>
  C6. For every sequence of readings of the AUX line, also one that is never high,
  \<^verbatim>\<open>waitForDeviceIdle\<close> returns, after at least one and at most 10 readings of the
  line, and changes nothing else in the state.
\<close>

theorem waitForDeviceIdle_bound:
  "\<exists>s'. waitForDeviceIdle s = Some s' \<and> s' = s\<lparr>polls := polls s'\<rparr>
        \<and> polls s < polls s' \<and> polls s' \<le> polls s + 10"
proof -
  obtain q where q: "idle_loop (AUX s) (polls s) 0 = Some q" "polls s < q" "q \<le> polls s + 10"
    using idle_loop_returns [of "AUX s" "polls s"] by blast
  show ?thesis
    by (rule exI [of _ "s\<lparr>polls := q\<rparr>"]) (use q in \<open>simp add: waitForDeviceIdle_def\<close>)
qed

subsection \<open>C5: the frequency and the channel after a clamp\<close>

lemma calcFrequency_band:
  assumes "py_int 0 (takeWhile (\<lambda>c. c \<noteq> CHR ''T'') (model cfg)) = Some k"
    and "FREQ k = Some [minfreq, midfreq, maxfreq]"
    and "channel cfg = PInt c"
  shows "calcFrequency cfg =
           Some (if minfreq + c > maxfreq
                 then cfg\<lparr>frequency := maxfreq, channel := PStr (py_hex (maxfreq - minfreq))\<rparr>
                 else cfg\<lparr>frequency := minfreq + c\<rparr>)"
  using assms by (simp add: calcFrequency_def)

text \<open>
  C5 at the model \<^verbatim>\<open>170T20D\<close> (band 160 to 173 MHz) and channel 20: the frequency is
  clamped to 173, and the channel is rewritten to the string \<^verbatim>\<open>'0xd'\<close>, the text of
  \<^verbatim>\<open>hex(173 - 160)\<close>, not to the number 13.
\<close>

theorem calcFrequency_clamp_stores_text:
  "calcFrequency (default_config\<lparr>model := ''170T20D'', channel := PInt 20\<rparr>)
     = Some (default_config\<lparr>model := ''170T20D'', channel := PStr ''0xd'', frequency := 173\<rparr>)"
  by code_simp

subsection \<open>C1: encoding and decoding the configuration register\<close>

lemma encodeConfig_wutime_5:
  "Option.bind (encodeConfig (default_config\<lparr>wutime := 5\<rparr>)) py_bytes
     = Some [0xC0, 0x00, 0x00, 0x1A, 0x06, 0x6C]"
  by code_simp

text \<open>
  C1 at the default configuration with wakeup time 5: the register is encoded as
  \<^verbatim>\<open>C0 00 00 1A 06 6C\<close>, and decoding these six bytes gives the wakeup time 101, because
  \<^verbatim>\<open>decodeConfig\<close> reads the three bits \<^verbatim>\<open>101\<close> as a decimal number.
\<close>

theorem decodeConfig_encodeConfig_wutime:
  "map_option (\<lambda>m. decodeConfig m (default_config\<lparr>wutime := 5\<rparr>))
     (Option.bind (encodeConfig (default_config\<lparr>wutime := 5\<rparr>)) py_bytes)
   = Some (Some (default_config\<lparr>wutime := 101\<rparr>))"
  by code_simp



subsection \<open>What the operations leave unchanged\<close>

lemma setOperationMode_levels:
  "M0 (setOperationMode ''normal'' s) = 0 \<and> M1 (setOperationMode ''normal'' s) = 0"
  "M0 (setOperationMode ''wakeup'' s) = 1 \<and> M1 (setOperationMode ''wakeup'' s) = 0"
  "M0 (setOperationMode ''powersave'' s) = 0 \<and> M1 (setOperationMode ''powersave'' s) = 1"
  "M0 (setOperationMode ''sleep'' s) = 1 \<and> M1 (setOperationMode ''sleep'' s) = 1"
  by (simp_all add: setOperationMode_def OPERMODE_def digit_level_def py_int_def strip_def
      is_space_def unsigned_int_def digit_val_def)

lemma setOperationMode_frame [simp]:
  "config (setOperationMode m s) = config s"
  "debug (setOperationMode m s) = debug s"
  "written (setOperationMode m s) = written s"
  "pending (setOperationMode m s) = pending s"
  "E32config_json (setOperationMode m s) = E32config_json s"
  "AUX (setOperationMode m s) = AUX s"
  "polls (setOperationMode m s) = polls s"
  by (simp_all add: setOperationMode_def Let_def)

lemma serdev_read_frame:
  assumes "serdev_read s = (r, s')"
  shows "config s' = config s" "debug s' = debug s" "written s' = written s"
    "E32config_json s' = E32config_json s" "AUX s' = AUX s" "polls s' = polls s"
  using assms by (auto simp: serdev_read_def split: list.splits)

lemma serdev_write_frame [simp]:
  "config (serdev_write bs s) = config s"
  "debug (serdev_write bs s) = debug s"
  "written (serdev_write bs s) = written s @ [bs]"
  "pending (serdev_write bs s) = pending s"
  "E32config_json (serdev_write bs s) = E32config_json s"
  "AUX (serdev_write bs s) = AUX s"
  "polls (serdev_write bs s) = polls s"
  by (simp_all add: serdev_write_def)

lemma sendCommand_frame:
  assumes "sendCommand cmd s = (r, s')"
  shows "config s' = config s" "debug s' = debug s"
    "E32config_json s' = E32config_json s" "AUX s' = AUX s" "polls s' = polls s"
  using assms
  by (auto simp: sendCommand_def Let_def serdev_read_frame
      split: option.splits if_splits prod.splits dest: serdev_read_frame)

lemma py_bytes_length: "py_bytes xs = Some bs \<Longrightarrow> length bs = length xs"
  by (induction xs arbitrary: bs rule: py_bytes.induct) (auto split: if_splits)

lemma py_bytes_values: "py_bytes xs = Some bs \<Longrightarrow> xs = map (\<lambda>b. PInt (uint b)) bs"
proof (induction xs arbitrary: bs rule: py_bytes.induct)
  case (2 v xs)
  then obtain bs' where b: "0 \<le> v" "v < 256" "py_bytes xs = Some bs'" "bs = word_of_int v # bs'"
    by (auto split: if_splits)
  have "uint (word_of_int v :: 8 word) = v"
    using b(1,2) by (simp add: uint_word_of_int take_bit_eq_mod)
  then show ?case using b 2(1) by simp
qed simp_all

lemma encodeConfig_length: "encodeConfig cfg = Some m \<Longrightarrow> length m = 6"
  by (auto simp: encodeConfig_def split: Option.bind_splits)

lemma sendCommand_written:
  assumes "sendCommand cmd s = (r, s')"
  shows "written s' = written s \<or> (\<exists>bs. written s' = written s @ [bs])"
  using assms
  by (auto simp: sendCommand_def Let_def
      split: option.splits if_splits prod.splits dest: serdev_read_frame)


subsection \<open>The effect of setConfig and setTransmissionMode\<close>

lemma setConfig_debug: "debug (snd (setConfig cmd s)) = debug s"
  by (auto simp: setConfig_def saveConfigToJson_def
      split: prod.splits option.splits cmd_result.splits dest: sendCommand_frame)

lemma setConfig_response_length:
  assumes "sendCommand cmd s = (r, s1)" "len_result r \<noteq> Some 6"
  shows "setConfig cmd s = (''NOK'', s1)"
  using assms by (auto simp: setConfig_def split: option.splits)

lemma setConfig_no_debug:
  assumes "sendCommand cmd s = (r, s1)" "len_result r = Some 6" "\<not> debug s"
  shows "setConfig cmd s = (''OK'', saveConfigToJson s1)"
proof -
  have "\<not> debug s1" using assms(1,3) by (simp add: sendCommand_frame)
  moreover obtain m where "r = Bytes m" using assms(2) by (cases r) simp_all
  ultimately show ?thesis using assms(1,2) by (simp add: setConfig_def)
qed

lemma setConfig_config_no_debug:
  "\<not> debug s \<Longrightarrow> config (snd (setConfig cmd s)) = config s"
  by (auto simp: setConfig_def saveConfigToJson_def
      split: prod.splits option.splits cmd_result.splits dest: sendCommand_frame)

lemma setTransmissionMode_same: "transmode (config s) = tm \<Longrightarrow> setTransmissionMode tm s = s"
  by (simp add: setTransmissionMode_def)

lemma setTransmissionMode_debug: "debug (setTransmissionMode tm s) = debug s"
  by (simp add: setTransmissionMode_def setConfig_debug)

lemma setTransmissionMode_config_no_debug:
  "\<not> debug s \<Longrightarrow> config (setTransmissionMode tm s) = (config s)\<lparr>transmode := tm\<rparr>"
  by (simp add: setTransmissionMode_def setConfig_config_no_debug)

subsection \<open>C8: the result of getVersion\<close>

lemma py_bytes_getVersion: "py_bytes (replicate 3 (PInt 0xC3)) = Some [0xC3, 0xC3, 0xC3]"
  by code_simp

lemma sendCommand_getVersion:
  "sendCommand ''getVersion'' s =
     (case pending s of
        Some r # rest \<Rightarrow> (Bytes r, (serdev_write [0xC3, 0xC3, 0xC3] (setOperationMode ''sleep'' s))\<lparr>pending := rest\<rparr>)
      | None # rest \<Rightarrow> (NoData, (serdev_write [0xC3, 0xC3, 0xC3] (setOperationMode ''sleep'' s))\<lparr>pending := rest\<rparr>)
      | [] \<Rightarrow> (NoData, serdev_write [0xC3, 0xC3, 0xC3] (setOperationMode ''sleep'' s)))"
  by (simp add: sendCommand_def CMDS_def Let_def serdev_read_def py_bytes_getVersion
      split: list.splits option.splits)

text \<open>
  C8, amended. \<^verbatim>\<open>getVersion\<close> returns \<^verbatim>\<open>"OK"\<close> exactly when the response has length 4
  and either its first byte is not the opcode \<^verbatim>\<open>0xC3\<close> (then nothing is printed) or its
  second byte has an entry in the table \<^verbatim>\<open>FREQV\<close>; it returns \<^verbatim>\<open>"NOK"\<close> when
  nothing was read, when the response has another length, and when the first byte is
  \<^verbatim>\<open>0xC3\<close> and the second byte has no entry. In every case the configuration and the
  saved snapshot are unchanged.
\<close>

theorem getVersion_contract:
  "fst (getVersion s) =
     (case pending s of
        Some r # rest \<Rightarrow>
          if length r = 4 \<and> (uint (r ! 0) \<noteq> 0xC3 \<or> FREQV (py_hex (uint (r ! 1))) \<noteq> None)
          then ''OK'' else ''NOK''
      | _ \<Rightarrow> ''NOK'')
   \<and> config (snd (getVersion s)) = config s
   \<and> E32config_json (snd (getVersion s)) = E32config_json s"
  by (auto simp: getVersion_def sendCommand_getVersion Let_def split: list.splits option.splits)

theorem getVersion_contract_witness:
  "fst (getVersion (bench_driver False [Some [0xC3, 0x45, 0x0D, 0x14]])) = ''OK''
   \<and> fst (getVersion (bench_driver False [Some [0xC3, 0x47, 0x0D, 0x14]])) = ''NOK''
   \<and> config (snd (getVersion (bench_driver False [Some [0xC3, 0x45, 0x0D, 0x14]]))) = default_config"
  using getVersion_contract [of "bench_driver False [Some [0xC3, 0x45, 0x0D, 0x14]]"]
    getVersion_contract [of "bench_driver False [Some [0xC3, 0x47, 0x0D, 0x14]]"]
  by (simp add: bench_driver_def FREQV_def py_hex_def digit_chars_def)

text \<open>
  C8 as stated fails: a response of four bytes whose first byte is \<^verbatim>\<open>0x00\<close>, not the
  opcode \<^verbatim>\<open>0xC3\<close>, gives \<^verbatim>\<open>"OK"\<close>.
\<close>

theorem getVersion_ok_without_opcode:
  "fst (sendCommand ''getVersion'' (bench_driver False [Some [0x00, 0x45, 0x0D, 0x14]]))
     = Bytes [0x00, 0x45, 0x0D, 0x14]
   \<and> fst (getVersion (bench_driver False [Some [0x00, 0x45, 0x0D, 0x14]])) = ''OK''"
  by code_simp


subsection \<open>decodeConfig decodes every message of six bytes\<close>

lemma to_base_digits: "2 \<le> b \<Longrightarrow> d \<in> set (to_base b n) \<Longrightarrow> d < b"
proof (induction b n arbitrary: d rule: to_base.induct)
  case (1 b n)
  show ?case
  proof (cases "n < b \<or> b < 2")
    case True
    then have "to_base b n = [n]" by (subst to_base.simps) (simp del: to_base.simps)
    then have "d = n" using 1(3) by (simp del: to_base.simps)
    then show ?thesis using True 1(2) by (simp del: to_base.simps)
  next
    case False
    then have "to_base b n = to_base b (n div b) @ [n mod b]"
      by (subst to_base.simps) (simp del: to_base.simps)
    then have "set (to_base b n) = insert (n mod b) (set (to_base b (n div b)))"
      by (simp del: to_base.simps)
    then have "d \<in> set (to_base b (n div b)) \<or> d = n mod b"
      using 1(3) by blast
    then show ?thesis
    proof
      assume "d \<in> set (to_base b (n div b))"
      with False 1(2) show ?thesis by (rule 1(1))
    next
      assume "d = n mod b"
      then show ?thesis using 1(2) by (simp del: to_base.simps)
    qed
  qed
qed

lemma fmt_b_binary:
  assumes "0 \<le> v" "c \<in> set (fmt_b w v)"
  shows "c = CHR ''0'' \<or> c = CHR ''1''"
proof -
  from assms have "c = CHR ''0'' \<or> (\<exists>d \<in> set (to_base 2 (nat v)). c = ''01'' ! d)"
    by (auto simp: fmt_b_def rjust_def digit_chars_def simp del: to_base.simps)
  moreover have "''01'' ! d = CHR ''0'' \<or> ''01'' ! d = CHR ''1''"
    if "d \<in> set (to_base 2 (nat v))" for d
  proof -
    have "d < 2" using that by (intro to_base_digits [of 2]) simp_all
    then have "d = 0 \<or> d = 1" by arith
    then show ?thesis by auto
  qed
  ultimately show ?thesis by blast
qed

lemma fmt_b_length: "0 \<le> v \<Longrightarrow> w \<le> length (fmt_b w v)"
  by (simp add: fmt_b_def rjust_def del: to_base.simps)

lemma digit_val_binary: "digit_val CHR ''0'' = Some 0" "digit_val CHR ''1'' = Some 1"
  by (simp_all add: digit_val_def)

lemma parse_digits_binary:
  "(\<And>c. c \<in> set s \<Longrightarrow> c = CHR ''0'' \<or> c = CHR ''1'') \<Longrightarrow> \<exists>y. parse_digits 10 acc s = Some y"
proof (induction s arbitrary: acc)
  case Nil
  show ?case by simp
next
  case (Cons a s)
  have a: "a = CHR ''0'' \<or> a = CHR ''1''" using Cons.prems by simp
  have "\<And>c. c \<in> set s \<Longrightarrow> c = CHR ''0'' \<or> c = CHR ''1''" using Cons.prems by simp
  then have ih: "\<exists>y. parse_digits 10 acc' s = Some y" for acc' by (rule Cons.IH)
  from a show ?case
  proof
    assume "a = CHR ''0''"
    then show ?thesis using ih [of "acc * 10 + 0"] by (simp add: digit_val_binary)
  next
    assume "a = CHR ''1''"
    then show ?thesis using ih [of "acc * 10 + 1"] by (simp add: digit_val_binary)
  qed
qed

lemma strip_binary:
  assumes "\<And>c. c \<in> set s \<Longrightarrow> c = CHR ''0'' \<or> c = CHR ''1''"
  shows "strip s = s"
proof -
  have ns: "\<not> is_space c" if "c \<in> set s" for c
    using assms [OF that] by (auto simp: is_space_def)
  have "dropWhile is_space s = s"
    by (cases s) (simp_all add: ns)
  moreover have "dropWhile is_space (rev s) = rev s"
    by (cases "rev s") (simp, metis dropWhile.simps(2) list.set_intros(1) ns set_rev)
  ultimately show ?thesis by (simp add: strip_def)
qed

lemma py_int_binary:
  assumes "s \<noteq> []" "\<And>c. c \<in> set s \<Longrightarrow> c = CHR ''0'' \<or> c = CHR ''1''"
  shows "py_int 0 s \<noteq> None"
proof -
  obtain c cs where s: "s = c # cs" using assms(1) by (cases s) auto
  have c: "c = CHR ''0'' \<or> c = CHR ''1''" using assms(2) s by simp
  have st: "strip s = s" by (rule strip_binary) (rule assms(2))
  have bp: "base_prefix 0 s = (10, s)"
  proof (cases cs)
    case Nil
    then show ?thesis using s by simp
  next
    case (Cons c1 cs')
    then have "c1 = CHR ''0'' \<or> c1 = CHR ''1''" using assms(2) s by simp
    then show ?thesis using s Cons by auto
  qed
  obtain y where "parse_digits 10 0 s = Some y"
    using parse_digits_binary [of s 0] assms(2) by blast
  then have u: "unsigned_int 0 s = Some y"
    using assms(1) by (simp add: unsigned_int_def bp)
  have "py_int 0 s = map_option int (unsigned_int 0 s)"
    unfolding py_int_def st using c s by auto
  then show ?thesis using u by simp
qed

lemma py_int_bits:
  fixes b :: byte
  assumes "i < j" "i < 8"
  shows "py_int 0 (slice i j (fmt_b 8 (uint b))) \<noteq> None"
    and "py_int 0 (drop i (fmt_b 8 (uint b))) \<noteq> None"
proof -
  have len: "8 \<le> length (fmt_b 8 (uint b))" by (simp add: fmt_b_length)
  have bin: "c = CHR ''0'' \<or> c = CHR ''1''" if "c \<in> set (fmt_b 8 (uint b))" for c
    using that by (intro fmt_b_binary [of "uint b" c 8]) simp_all
  have "slice i j (fmt_b 8 (uint b)) \<noteq> []" using len assms by (simp add: slice_def)
  moreover have "c = CHR ''0'' \<or> c = CHR ''1''" if "c \<in> set (slice i j (fmt_b 8 (uint b)))" for c
    using that bin by (auto simp: slice_def dest: in_set_takeD in_set_dropD)
  ultimately show "py_int 0 (slice i j (fmt_b 8 (uint b))) \<noteq> None" by (rule py_int_binary)
  have "drop i (fmt_b 8 (uint b)) \<noteq> []" using len assms by simp
  moreover have "c = CHR ''0'' \<or> c = CHR ''1''" if "c \<in> set (drop i (fmt_b 8 (uint b)))" for c
    using that bin by (auto dest: in_set_dropD)
  ultimately show "py_int 0 (drop i (fmt_b 8 (uint b))) \<noteq> None" by (rule py_int_binary)
qed

lemma decodeConfig_decodes:
  assumes "6 \<le> length m"
  shows "\<exists>c. decodeConfig m cfg = Some c"
proof -
  let ?bits = "fmt_b 8 (uint (m ! 5))"
  obtain tm where tm: "py_int 0 (slice 0 1 ?bits) = Some tm"
    using py_int_bits(1) [of 0 1 "m ! 5"] by auto
  obtain io where io: "py_int 0 (slice 1 2 ?bits) = Some io"
    using py_int_bits(1) [of 1 2 "m ! 5"] by auto
  obtain wu where wu: "py_int 0 (slice 2 5 ?bits) = Some wu"
    using py_int_bits(1) [of 2 5 "m ! 5"] by auto
  obtain fe where fe: "py_int 0 (slice 5 6 ?bits) = Some fe"
    using py_int_bits(1) [of 5 6 "m ! 5"] by auto
  obtain tx where tx: "py_int 0 (drop 6 ?bits) = Some tx"
    using py_int_bits(2) [of 6 7 "m ! 5"] by auto
  show ?thesis using assms tm io wu fe tx by (simp add: decodeConfig_def Let_def)
qed

lemma setConfig_debug_decoded:
  assumes "sendCommand cmd s = (Bytes m, s1)" "length m = 6" "debug s"
    and "decodeConfig m (config s) = Some c" "showConfig c \<noteq> None"
  shows "setConfig cmd s = (''OK'', saveConfigToJson (s1\<lparr>config := c\<rparr>))"
proof -
  have "debug s1" "config s1 = config s"
    using sendCommand_frame [OF assms(1)] assms(3) by simp_all
  moreover obtain u where "showConfig c = Some u" using assms(5) by blast
  ultimately show ?thesis using assms(1,2,4) by (simp add: setConfig_def)
qed

subsection \<open>C4: what setConfig updates\<close>

text \<open>
  C4, amended. When the result of the command does not have length 6 (a response of
  another length, no response, or a command that could not be sent), \<^verbatim>\<open>setConfig\<close>
  returns \<^verbatim>\<open>"NOK"\<close> and leaves the configuration and the saved snapshot as they were.
  When it has length 6 and debug is off, \<^verbatim>\<open>setConfig\<close> returns \<^verbatim>\<open>"OK"\<close>, does not
  decode the response, and saves the unchanged configuration as the snapshot. When it
  has length 6 and debug is on, the response is decoded, and if \<^verbatim>\<open>showConfig\<close> can
  show the decoded configuration, \<^verbatim>\<open>setConfig\<close> returns \<^verbatim>\<open>"OK"\<close>, the configuration
  is the decoded response and the snapshot is this configuration; with debug on,
  \<^verbatim>\<open>setConfig\<close> returns \<^verbatim>\<open>"OK"\<close> in no other way.
\<close>

theorem setConfig_effect:
  "(len_result (fst (sendCommand cmd s)) \<noteq> Some 6 \<longrightarrow>
      fst (setConfig cmd s) = ''NOK''
      \<and> config (snd (setConfig cmd s)) = config s
      \<and> E32config_json (snd (setConfig cmd s)) = E32config_json s)
   \<and> (len_result (fst (sendCommand cmd s)) = Some 6 \<and> \<not> debug s \<longrightarrow>
      fst (setConfig cmd s) = ''OK''
      \<and> config (snd (setConfig cmd s)) = config s
      \<and> E32config_json (snd (setConfig cmd s)) = Some (config s))
   \<and> (len_result (fst (sendCommand cmd s)) = Some 6 \<and> debug s \<longrightarrow>
      (\<exists>m c. fst (sendCommand cmd s) = Bytes m \<and> length m = 6
         \<and> decodeConfig m (config s) = Some c
         \<and> (showConfig c \<noteq> None \<longrightarrow>
              fst (setConfig cmd s) = ''OK''
              \<and> config (snd (setConfig cmd s)) = c
              \<and> E32config_json (snd (setConfig cmd s)) = Some c)))
   \<and> (debug s \<and> fst (setConfig cmd s) = ''OK'' \<longrightarrow>
      (\<exists>m. fst (sendCommand cmd s) = Bytes m \<and> length m = 6
         \<and> decodeConfig m (config s) = Some (config (snd (setConfig cmd s)))
         \<and> showConfig (config (snd (setConfig cmd s))) \<noteq> None
         \<and> E32config_json (snd (setConfig cmd s)) = Some (config (snd (setConfig cmd s)))))"
proof -
  obtain r s1 where sc: "sendCommand cmd s = (r, s1)" by (cases "sendCommand cmd s")
  note fr = sendCommand_frame [OF sc]
  have a: "len_result r \<noteq> Some 6 \<Longrightarrow> setConfig cmd s = (''NOK'', s1)"
    using sc by (rule setConfig_response_length)
  have b: "len_result r = Some 6 \<Longrightarrow> \<not> debug s \<Longrightarrow> setConfig cmd s = (''OK'', saveConfigToJson s1)"
    using sc by (rule setConfig_no_debug)
  have c: "\<exists>m c. r = Bytes m \<and> length m = 6 \<and> decodeConfig m (config s) = Some c
         \<and> (showConfig c \<noteq> None \<longrightarrow>
              fst (setConfig cmd s) = ''OK''
              \<and> config (snd (setConfig cmd s)) = c
              \<and> E32config_json (snd (setConfig cmd s)) = Some c)"
    if l: "len_result r = Some 6" and d: "debug s"
  proof -
    obtain m where m: "r = Bytes m" "length m = 6" using l by (cases r) simp_all
    obtain c where c: "decodeConfig m (config s) = Some c"
      using decodeConfig_decodes [of m "config s"] m(2) by auto
    have "setConfig cmd s = (''OK'', saveConfigToJson (s1\<lparr>config := c\<rparr>))"
      if "showConfig c \<noteq> None"
      using sc [unfolded m(1)] m(2) d c that by (rule setConfig_debug_decoded)
    then show ?thesis using m c by (auto simp: saveConfigToJson_def)
  qed
  have e: "debug s \<Longrightarrow> fst (setConfig cmd s) = ''OK'' \<Longrightarrow>
      \<exists>m. r = Bytes m \<and> length m = 6
         \<and> decodeConfig m (config s) = Some (config (snd (setConfig cmd s)))
         \<and> showConfig (config (snd (setConfig cmd s))) \<noteq> None
         \<and> E32config_json (snd (setConfig cmd s)) = Some (config (snd (setConfig cmd s)))"
    using sc fr
    by (auto simp: setConfig_def saveConfigToJson_def split: option.splits cmd_result.splits if_splits)
  show ?thesis
  proof (intro conjI impI)
    assume "len_result (fst (sendCommand cmd s)) \<noteq> Some 6"
    then have n: "setConfig cmd s = (''NOK'', s1)" using a by (simp add: sc)
    show "fst (setConfig cmd s) = ''NOK''" by (simp add: n)
    show "config (snd (setConfig cmd s)) = config s" by (simp add: n fr)
    show "E32config_json (snd (setConfig cmd s)) = E32config_json s" by (simp add: n fr)
  next
    assume "len_result (fst (sendCommand cmd s)) = Some 6 \<and> \<not> debug s"
    then have n: "setConfig cmd s = (''OK'', saveConfigToJson s1)" using b by (simp add: sc)
    show "fst (setConfig cmd s) = ''OK''" by (simp add: n)
    show "config (snd (setConfig cmd s)) = config s" by (simp add: n fr saveConfigToJson_def)
    show "E32config_json (snd (setConfig cmd s)) = Some (config s)"
      by (simp add: n fr saveConfigToJson_def)
  next
    assume "len_result (fst (sendCommand cmd s)) = Some 6 \<and> debug s"
    then show "\<exists>m c. fst (sendCommand cmd s) = Bytes m \<and> length m = 6
         \<and> decodeConfig m (config s) = Some c
         \<and> (showConfig c \<noteq> None \<longrightarrow>
              fst (setConfig cmd s) = ''OK''
              \<and> config (snd (setConfig cmd s)) = c
              \<and> E32config_json (snd (setConfig cmd s)) = Some c)"
      using c by (simp add: sc)
  next
    assume "debug s \<and> fst (setConfig cmd s) = ''OK''"
    then show "\<exists>m. fst (sendCommand cmd s) = Bytes m \<and> length m = 6
         \<and> decodeConfig m (config s) = Some (config (snd (setConfig cmd s)))
         \<and> showConfig (config (snd (setConfig cmd s))) \<noteq> None
         \<and> E32config_json (snd (setConfig cmd s)) = Some (config (snd (setConfig cmd s)))"
      using e by (simp add: sc)
  qed
qed

theorem setConfig_effect_witness:
  "len_result (fst (sendCommand ''setConfigPwrDwnSave'' (bench_driver False [Some [0xC0, 0x00]]))) \<noteq> Some 6
   \<and> fst (setConfig ''setConfigPwrDwnSave'' (bench_driver False [Some [0xC0, 0x00]])) = ''NOK''
   \<and> E32config_json (snd (setConfig ''setConfigPwrDwnSave'' (bench_driver False [Some [0xC0, 0x00]]))) = None
   \<and> len_result (fst (sendCommand ''setConfigPwrDwnSave''
         (bench_driver False [Some [0xC0, 0x00, 0x00, 0x1A, 0x06, 0x44]]))) = Some 6
   \<and> E32config_json (snd (setConfig ''setConfigPwrDwnSave''
         (bench_driver False [Some [0xC0, 0x00, 0x00, 0x1A, 0x06, 0x44]]))) = Some default_config
   \<and> len_result (fst (sendCommand ''setConfigPwrDwnSave''
         (bench_driver True [Some [0xC0, 0x00, 0x07, 0x1A, 0x06, 0x44]]))) = Some 6
   \<and> showConfig (default_config\<lparr>address := 7\<rparr>) \<noteq> None
   \<and> fst (setConfig ''setConfigPwrDwnSave''
         (bench_driver True [Some [0xC0, 0x00, 0x07, 0x1A, 0x06, 0x44]])) = ''OK''
   \<and> config (snd (setConfig ''setConfigPwrDwnSave''
         (bench_driver True [Some [0xC0, 0x00, 0x07, 0x1A, 0x06, 0x44]])))
       = default_config\<lparr>address := 7\<rparr>
   \<and> E32config_json (snd (setConfig ''setConfigPwrDwnSave''
         (bench_driver True [Some [0xC0, 0x00, 0x07, 0x1A, 0x06, 0x44]])))
       = Some (default_config\<lparr>address := 7\<rparr>)"
proof -
  let ?c = "''setConfigPwrDwnSave''"
  let ?a = "bench_driver False [Some [0xC0, 0x00]]"
  let ?b = "bench_driver False [Some [0xC0, 0x00, 0x00, 0x1A, 0x06, 0x44]]"
  let ?d = "bench_driver True [Some [0xC0, 0x00, 0x07, 0x1A, 0x06, 0x44]]"
  let ?c7 = "default_config\<lparr>address := 7\<rparr>"
  have ha: "len_result (fst (sendCommand ?c ?a)) \<noteq> Some 6" by code_simp
  have hb: "len_result (fst (sendCommand ?c ?b)) = Some 6 \<and> \<not> debug ?b" by code_simp
  have hd: "len_result (fst (sendCommand ?c ?d)) = Some 6 \<and> debug ?d" by code_simp
  have rd: "fst (sendCommand ?c ?d) = Bytes [0xC0, 0x00, 0x07, 0x1A, 0x06, 0x44]" by code_simp
  have dd: "decodeConfig [0xC0, 0x00, 0x07, 0x1A, 0x06, 0x44] (config ?d) = Some ?c7" by code_simp
  have sd: "showConfig ?c7 \<noteq> None" by code_simp
  have ja: "E32config_json ?a = None" and jb: "config ?b = default_config"
    by (simp_all add: bench_driver_def)
  from setConfig_effect [of ?c ?a, THEN conjunct1, THEN mp, OF ha]
  have ra: "fst (setConfig ?c ?a) = ''NOK'' \<and> E32config_json (snd (setConfig ?c ?a)) = None"
    by (simp only: ja)
  from setConfig_effect [of ?c ?b, THEN conjunct2, THEN conjunct1, THEN mp, OF hb]
  have rb: "E32config_json (snd (setConfig ?c ?b)) = Some default_config"
    by (simp only: jb)
  from setConfig_effect [of ?c ?d, THEN conjunct2, THEN conjunct2, THEN conjunct1, THEN mp, OF hd]
  obtain m c where mc: "fst (sendCommand ?c ?d) = Bytes m" "decodeConfig m (config ?d) = Some c"
    "showConfig c \<noteq> None \<longrightarrow> fst (setConfig ?c ?d) = ''OK'' \<and> config (snd (setConfig ?c ?d)) = c
       \<and> E32config_json (snd (setConfig ?c ?d)) = Some c"
    by (elim exE conjE)
  have "m = [0xC0, 0x00, 0x07, 0x1A, 0x06, 0x44]" using mc(1) by (simp only: rd cmd_result.inject)
  then have "c = ?c7" using mc(2) by (simp only: dd option.inject)
  then have rd': "fst (setConfig ?c ?d) = ''OK'' \<and> config (snd (setConfig ?c ?d)) = ?c7
      \<and> E32config_json (snd (setConfig ?c ?d)) = Some ?c7"
    using mc(3) sd by (simp only: simp_thms)
  show ?thesis
    by (intro conjI ha ra [THEN conjunct1] ra [THEN conjunct2] hb [THEN conjunct1] rb
        hd [THEN conjunct1] sd rd' [THEN conjunct1] rd' [THEN conjunct2, THEN conjunct1]
        rd' [THEN conjunct2, THEN conjunct2])
qed

text \<open>
  C4 as stated fails: with debug off, a response of length 6 that reports the address
  \<^verbatim>\<open>0x1234\<close> is accepted with \<^verbatim>\<open>"OK"\<close>, and the configured address stays 0.
\<close>

theorem setConfig_keeps_config_without_debug:
  "len_result (fst (sendCommand ''setConfigPwrDwnSave''
       (bench_driver False [Some [0xC0, 0x12, 0x34, 0x1A, 0x06, 0x44]]))) = Some 6
   \<and> fst (setConfig ''setConfigPwrDwnSave''
       (bench_driver False [Some [0xC0, 0x12, 0x34, 0x1A, 0x06, 0x44]])) = ''OK''
   \<and> address (config (snd (setConfig ''setConfigPwrDwnSave''
       (bench_driver False [Some [0xC0, 0x12, 0x34, 0x1A, 0x06, 0x44]])))) = 0
   \<and> map_option address (decodeConfig [0xC0, 0x12, 0x34, 0x1A, 0x06, 0x44] default_config)
       = Some 0x1234"
  by code_simp


text \<open>
  With debug on, a response whose power bits are \<^verbatim>\<open>10\<close> is decoded into the
  configuration (as power 10), \<^verbatim>\<open>showConfig\<close> raises on it, and \<^verbatim>\<open>setConfig\<close>
  returns \<^verbatim>\<open>"NOK"\<close> with the configuration changed and no snapshot saved.
\<close>

lemma setConfig_debug_partial_update:
  "fst (setConfig ''setConfigPwrDwnSave''
       (bench_driver True [Some [0xC0, 0x00, 0x07, 0x1A, 0x06, 0x46]])) = ''NOK''
   \<and> config (snd (setConfig ''setConfigPwrDwnSave''
       (bench_driver True [Some [0xC0, 0x00, 0x07, 0x1A, 0x06, 0x46]])))
       = default_config\<lparr>address := 7, txpower := 10\<rparr>
   \<and> E32config_json (snd (setConfig ''setConfigPwrDwnSave''
       (bench_driver True [Some [0xC0, 0x00, 0x07, 0x1A, 0x06, 0x46]]))) = None"
  by code_simp

subsection \<open>C10: no reconfiguration when the mode is already set\<close>

lemma waitForDeviceIdle_frame:
  assumes "waitForDeviceIdle s = Some s'"
  shows "config s' = config s" "debug s' = debug s" "written s' = written s"
    "E32config_json s' = E32config_json s" "pending s' = pending s"
  using assms by (auto simp: waitForDeviceIdle_def)

lemma sendMessage_frame:
  assumes "sendMessage dumps a c p cs s = Some (r, s')"
  shows "config s' = config (setTransmissionMode (transmission_for a c s) s)"
    and "debug s' = debug s"
  using assms
  by (auto simp: sendMessage_def Let_def setTransmissionMode_debug
      split: payload.splits option.splits if_splits dest: waitForDeviceIdle_frame)

lemma recvMessage_frame:
  assumes "recvMessage loads a c cs s = (r, s')"
  shows "config s' = config (setTransmissionMode (transmission_for a c s) s)"
    and "debug s' = debug s"
  using assms
  by (auto simp: recvMessage_def Let_def setTransmissionMode_debug
      split: prod.splits option.splits dest: serdev_read_frame)

lemma transmission_for_config:
  "address (config s') = address (config s) \<Longrightarrow> channel (config s') = channel (config s)
     \<Longrightarrow> transmission_for a c s' = transmission_for a c s"
  by (simp add: transmission_for_def)

lemma second_decision_redundant:
  assumes "\<not> debug s" "config s' = config (setTransmissionMode (transmission_for a c s) s)"
  shows "setTransmissionMode (transmission_for a c s') s' = s'"
proof -
  have c: "config s' = (config s)\<lparr>transmode := transmission_for a c s\<rparr>"
    using assms by (simp add: setTransmissionMode_config_no_debug)
  then have "transmission_for a c s' = transmission_for a c s"
    by (intro transmission_for_config) simp_all
  then show ?thesis using c by (intro setTransmissionMode_same) simp
qed

text \<open>
  C10, amended. When the requested mode is the configured one, \<^verbatim>\<open>setTransmissionMode\<close>
  changes nothing: no command is written, no snapshot is saved, the configuration is
  unchanged; so a command is written only when the requested mode differs. With debug
  off, after a \<^verbatim>\<open>sendMessage\<close> or a \<^verbatim>\<open>recvMessage\<close> has returned, the mode decision
  for the same address and channel is the configured mode, so that the next send or
  receive to or from the same destination does not reconfigure.
\<close>

theorem setTransmissionMode_skips_when_redundant:
  "(transmode (config s) = tm \<longrightarrow> setTransmissionMode tm s = s)
   \<and> (written (setTransmissionMode tm s) \<noteq> written s \<longrightarrow> tm \<noteq> transmode (config s))
   \<and> (\<not> debug s \<and> sendMessage dumps a c p cs s = Some (r, s1) \<longrightarrow>
        setTransmissionMode (transmission_for a c s1) s1 = s1)
   \<and> (\<not> debug s \<and> recvMessage loads a c cs s = (r', s2) \<longrightarrow>
        setTransmissionMode (transmission_for a c s2) s2 = s2)"
proof (intro conjI impI)
  assume "transmode (config s) = tm"
  then show "setTransmissionMode tm s = s" by (rule setTransmissionMode_same)
next
  assume "written (setTransmissionMode tm s) \<noteq> written s"
  then show "tm \<noteq> transmode (config s)" by (auto simp: setTransmissionMode_same)
next
  assume "\<not> debug s \<and> sendMessage dumps a c p cs s = Some (r, s1)"
  then have "\<not> debug s" and "sendMessage dumps a c p cs s = Some (r, s1)" by simp_all
  from this(1) sendMessage_frame(1) [OF this(2)]
  show "setTransmissionMode (transmission_for a c s1) s1 = s1"
    by (rule second_decision_redundant)
next
  assume "\<not> debug s \<and> recvMessage loads a c cs s = (r', s2)"
  then have "\<not> debug s" and "recvMessage loads a c cs s = (r', s2)" by simp_all
  from this(1) recvMessage_frame(1) [OF this(2)]
  show "setTransmissionMode (transmission_for a c s2) s2 = s2"
    by (rule second_decision_redundant)
qed


theorem setTransmissionMode_skips_when_redundant_witness:
  "transmode (config (bench_driver False [])) = 0
   \<and> setTransmissionMode 0 (bench_driver False []) = bench_driver False []
   \<and> written (setTransmissionMode 1 (bench_driver False [])) \<noteq> written (bench_driver False [])
   \<and> \<not> debug (bench_driver False [])
   \<and> map_option fst (sendMessage Some 1 6 (Dict [123, 125]) False (bench_driver False [])) = Some ''OK''
   \<and> fst (recvMessage Some 1 6 False (bench_driver False [None, Some [123, 125]])) = Parsed [123, 125]"
proof -
  let ?s = "bench_driver False []"
  let ?t = "bench_driver False [None, Some [123, 125]]"
  have h1: "transmode (config ?s) = 0" by (simp add: bench_driver_def default_config_def)
  have h2: "written (setTransmissionMode 1 ?s) \<noteq> written ?s" by code_simp
  have h3: "\<not> debug ?s" "\<not> debug ?t" by (simp_all add: bench_driver_def)
  have h4: "map_option fst (sendMessage Some 1 6 (Dict [123, 125]) False ?s) = Some ''OK''"
    by code_simp
  then obtain s1 where s1: "sendMessage Some 1 6 (Dict [123, 125]) False ?s = Some (''OK'', s1)"
    by (cases "sendMessage Some 1 6 (Dict [123, 125]) False ?s") auto
  have h5: "fst (recvMessage Some 1 6 False ?t) = Parsed [123, 125]" by code_simp
  obtain s2 where s2: "recvMessage Some 1 6 False ?t = (Parsed [123, 125], s2)"
    using h5 by (cases "recvMessage Some 1 6 False ?t") auto
  from setTransmissionMode_skips_when_redundant [of ?s 0 Some 1 6 "Dict [123, 125]" False "''OK''" s1] h1
  have "setTransmissionMode 0 ?s = ?s" by blast
  then show ?thesis using h1 h2 h3 h4 h5 by simp
qed

text \<open>
  C10 as stated fails with debug on: the response to the configuration command is decoded
  into the configuration, and when it reports transmission mode 0 after mode 1 was set,
  the second send to the same destination writes the configuration command again.
\<close>

theorem second_send_reconfigures_in_debug_mode:
  "map_option (written \<circ> snd)
     (Option.bind
        (map_option snd (sendMessage Some 1 6 (Dict [123, 125]) False
           (bench_driver True [Some [0xC0, 0x00, 0x00, 0x1A, 0x06, 0x44],
                               Some [0xC0, 0x00, 0x00, 0x1A, 0x06, 0x44]])))
        (sendMessage Some 1 6 (Dict [123, 125]) False))
   = Some [[0xC0, 0x00, 0x00, 0x1A, 0x06, 0xC4], [123, 125],
           [0xC0, 0x00, 0x00, 0x1A, 0x06, 0xC4], [123, 125]]"
  by code_simp


subsection \<open>C9: a payload that is not a dictionary\<close>

lemma sendCommand_set_written:
  assumes "sendCommand ''setConfigPwrDwnSave'' s = (r, s')"
  shows "written s' = written s
       \<or> (\<exists>bs. written s' = written s @ [bs] \<and> length bs = 6 \<and> bs ! 0 = 0xC0)"
proof (cases "Option.bind (map_option (\<lambda>m. m[0 := PInt 0xC0]) (encodeConfig (config s))) py_bytes")
  case None
  then show ?thesis using assms by (auto simp: sendCommand_def CMDS_def Let_def)
next
  case (Some bs)
  then obtain m where m: "encodeConfig (config s) = Some m" "py_bytes (m[0 := PInt 0xC0]) = Some bs"
    by (auto split: Option.bind_splits)
  have len: "length bs = 6"
    using py_bytes_length [OF m(2)] encodeConfig_length [OF m(1)] by simp
  have "m[0 := PInt 0xC0] ! 0 = map (\<lambda>b. PInt (uint b)) bs ! 0"
    using py_bytes_values [OF m(2)] by simp
  then have "uint (bs ! 0) = 0xC0"
    using len encodeConfig_length [OF m(1)] by simp
  then have "word_of_int (uint (bs ! 0)) = (word_of_int 0xC0 :: 8 word)" by (simp only:)
  then have "bs ! 0 = 0xC0" by simp
  moreover have "written s' = written s @ [bs]"
    using assms Some
    by (auto simp: sendCommand_def CMDS_def Let_def split: prod.splits option.splits
        dest: serdev_read_frame)
  ultimately show ?thesis using len by blast
qed

lemma setTransmissionMode_written:
  "written (setTransmissionMode tm s) = written s
   \<or> (tm \<noteq> transmode (config s)
      \<and> (\<exists>bs. written (setTransmissionMode tm s) = written s @ [bs] \<and> length bs = 6 \<and> bs ! 0 = 0xC0))"
proof (cases "tm = transmode (config s)")
  case True
  then show ?thesis by (simp add: setTransmissionMode_def)
next
  case False
  let ?s = "s\<lparr>config := (config s)\<lparr>transmode := tm\<rparr>\<rparr>"
  obtain r s1 where sc: "sendCommand ''setConfigPwrDwnSave'' ?s = (r, s1)"
    by (cases "sendCommand ''setConfigPwrDwnSave'' ?s")
  have "written (snd (setConfig ''setConfigPwrDwnSave'' ?s)) = written s1"
    using sc
    by (auto simp: setConfig_def saveConfigToJson_def split: option.splits cmd_result.splits)
  moreover have "written ?s = written s" by simp
  ultimately show ?thesis
    using sendCommand_set_written [OF sc] False by (simp add: setTransmissionMode_def)
qed

text \<open>
  C9, amended. \<^verbatim>\<open>sendMessage\<close> with a payload that is not a dictionary returns
  \<^verbatim>\<open>"NOK"\<close> and writes no message frame. The mode decision comes before the check of
  the payload: when the mode for the destination differs from the configured one, the
  six bytes of the set-configuration command (first byte \<^verbatim>\<open>0xC0\<close>) may be written;
  nothing else is written.
\<close>

theorem sendMessage_rejects_non_dict:
  "\<exists>s'. sendMessage dumps a c NotDict cs s = Some (''NOK'', s')
     \<and> (written s' = written s
        \<or> (transmission_for a c s \<noteq> transmode (config s)
           \<and> (\<exists>bs. written s' = written s @ [bs] \<and> length bs = 6 \<and> bs ! 0 = 0xC0)))"
  using setTransmissionMode_written [of "transmission_for a c s" s]
  by (simp add: sendMessage_def Let_def)

theorem sendMessage_rejects_non_dict_witness:
  "transmission_for 1 6 (bench_driver False []) \<noteq> transmode (config (bench_driver False []))
   \<and> map_option fst (sendMessage Some 1 6 (NotDict :: nat list payload) False (bench_driver False []))
       = Some ''NOK''
   \<and> map_option fst (sendMessage Some 0 6 (NotDict :: nat list payload) True (bench_driver False []))
       = Some ''NOK''"
proof -
  have "transmission_for 1 6 (bench_driver False []) \<noteq> transmode (config (bench_driver False []))"
    by code_simp
  then show ?thesis
    using sendMessage_rejects_non_dict [of Some 1 6 False "bench_driver False []"]
      sendMessage_rejects_non_dict [of Some 0 6 True "bench_driver False []"]
    by auto
qed

text \<open>
  C9 as stated fails: the default driver (transparent mode, address 0, channel 6), asked
  to send an object that is not a dictionary to address 1, returns \<^verbatim>\<open>"NOK"\<close> after it
  has written the configuration command \<^verbatim>\<open>C0 00 00 1A 06 C4\<close> to the serial link.
\<close>

theorem non_dict_payload_still_reconfigures:
  "written (bench_driver False []) = []
   \<and> map_option fst (sendMessage Some 1 6 (NotDict :: nat list payload) False (bench_driver False []))
       = Some ''NOK''
   \<and> map_option (written \<circ> snd)
         (sendMessage Some 1 6 (NotDict :: nat list payload) False (bench_driver False []))
       = Some [[0xC0, 0x00, 0x00, 0x1A, 0x06, 0xC4]]"
  by code_simp



subsection \<open>C3: the frame that sendMessage writes\<close>






subsection \<open>C7: the checksum test on receipt\<close>

text \<open>Replacing one byte of a text whose sum is 0 modulo 256 gives a nonzero sum.\<close>

lemma dvd_256_update:
  fixes S b v :: nat
  assumes "256 dvd S" "v \<le> S" "b < 256" "v < 256" "b \<noteq> v"
  shows "\<not> 256 dvd (S + b - v)"
proof
  assume d: "256 dvd (S + b - v)"
  show False
  proof (cases "v \<le> b")
    case True
    then have "S + b - v = S + (b - v)" by simp
    then have "256 dvd (b - v)" using d assms(1) by (simp add: dvd_add_right_iff)
    moreover have "0 < b - v" "b - v < 256" using True assms(3,5) by simp_all
    ultimately show False using nat_dvd_not_less by blast
  next
    case False
    then have "S = (S + b - v) + (v - b)" using assms(2) by simp
    then have "256 dvd (S + b - v) + (v - b)" using assms(1) by simp
    then have "256 dvd (v - b)" using d by (simp add: dvd_add_right_iff)
    moreover have "0 < v - b" "v - b < 256" using False assms(4) by simp_all
    ultimately show False using nat_dvd_not_less by blast
  qed
qed

lemma unat_update_sum:
  fixes V :: "byte list"
  assumes "i < length V" "sum_list (map unat V) mod 256 = 0" "b \<noteq> V ! i"
  shows "sum_list (map unat (V[i := b])) mod 256 \<noteq> 0"
proof -
  let ?S = "sum_list (map unat V)"
  have u: "sum_list (map unat (V[i := b])) = ?S + unat b - unat (V ! i)"
    using assms(1) by (simp add: map_update sum_list_update)
  have "map unat V ! i \<le> ?S" using assms(1) by (intro elem_le_sum_list) simp
  then have le: "unat (V ! i) \<le> ?S" using assms(1) by simp
  have "unat b < 2 ^ LENGTH(8)" "unat (V ! i) < 2 ^ LENGTH(8)"
    by (rule unsigned_less)+
  then have lt: "unat b < 256" "unat (V ! i) < 256" by simp_all
  have ne: "unat b \<noteq> unat (V ! i)" using assms(3) by (simp add: word_unat_eq_iff)
  have "256 dvd ?S" using assms(2) by (simp add: dvd_eq_mod_eq_0)
  then have "\<not> 256 dvd (?S + unat b - unat (V ! i))"
    using le lt ne by (rule dvd_256_update)
  then show ?thesis unfolding u by (simp add: dvd_eq_mod_eq_0)
qed


lemma decode_received_checksum:
  "decode_received loads True B =
     (if sum_list (map unat B) mod 256 \<noteq> 0
      then Msg (Some (''corrupt message, checksum ''
                      @ py_str ((- (int (sum_list (map unat B)) mod 256)) mod 256)))
      else (case loads (map unat (butlast B)) of None \<Rightarrow> RecvNOK | Some m \<Rightarrow> Parsed m))"
proof -
  let ?S = "sum_list (map unat B)"
  have "((- (int ?S mod 256)) mod 256 = 0) = (?S mod 256 = 0)"
  proof -
    have "((- (int ?S mod 256)) mod 256 = 0) = (int ?S mod 256 = 0)"
      by (simp add: checksum_mod_neg dvd_eq_mod_eq_0 [symmetric])
    also have "\<dots> = (?S mod 256 = 0)"
      by (metis int_ops(1) of_nat_eq_iff of_nat_numeral zmod_int)
    finally show ?thesis .
  qed
  then show ?thesis
    by (simp add: decode_received_def checksumByte_value Let_def map_butlast)
qed

lemma recvMessage_read:
  assumes "serdev_read (setOperationMode ''normal''
             (setTransmissionMode (transmission_for a c s) s)) = (Some B, s3)"
  shows "recvMessage loads a c cs s = (decode_received loads cs B, s3)"
  using assms by (simp add: recvMessage_def Let_def)

lemma checksum_nonzero:
  assumes "sum_list P mod 256 \<noteq> 0"
  shows "0 < (- (int (sum_list P) mod 256)) mod 256"
proof -
  let ?n = "(- (int (sum_list P) mod 256)) mod 256"
  have "int (sum_list P) mod 256 \<noteq> 0"
    using assms by (metis int_ops(1) of_nat_eq_iff of_nat_numeral zmod_int)
  then have "?n \<noteq> 0" by (simp add: checksum_mod_neg dvd_eq_mod_eq_0 [symmetric])
  moreover have "0 \<le> ?n" by simp
  ultimately show ?thesis by linarith
qed

lemma recvMessage_corrupt:
  assumes "serdev_read (setOperationMode ''normal''
             (setTransmissionMode (transmission_for a c s) s)) = (Some B, s3)"
    and "sum_list (map unat B) mod 256 \<noteq> 0"
  shows "\<exists>n. checksumByte (map unat B) = Some n \<and> 0 < n \<and> n < 256
            \<and> recvMessage loads a c True s
                = (Msg (Some (''corrupt message, checksum '' @ py_str n)), s3)"
proof -
  let ?n = "(- (int (sum_list (map unat B)) mod 256)) mod 256"
  have "checksumByte (map unat B) = Some ?n" by (rule checksumByte_value)
  moreover have "0 < ?n" using assms(2) by (rule checksum_nonzero)
  moreover have "?n < 256" by simp
  moreover have "recvMessage loads a c True s
      = (Msg (Some (''corrupt message, checksum '' @ py_str ?n)), s3)"
    using assms(2) by (simp add: recvMessage_read [OF assms(1)] decode_received_checksum)
  ultimately show ?thesis by (intro exI [of _ ?n] conjI)
qed

text \<open>
  C7. Let \<open>B\<close> be the bytes that \<^verbatim>\<open>recvMessage\<close> reads, with the checksum requested.
  If the sum of the bytes of \<open>B\<close> is not 0 modulo 256, the checksum \<open>n\<close> computed over
  \<open>B\<close> is not 0 and the call returns the message \<^verbatim>\<open>'corrupt message, checksum n'\<close>,
  whatever the parser would make of \<open>B\<close>. If the sum is 0 modulo 256, the last byte is
  removed and the rest is parsed. And if \<open>B\<close> is a text \<open>V\<close> with a valid checksum in which
  one byte was replaced by a different value, the call returns the corrupt-message result.
\<close>

theorem recvMessage_checksum:
  assumes "serdev_read (setOperationMode ''normal''
             (setTransmissionMode (transmission_for a c s) s)) = (Some B, s3)"
  shows "(sum_list (map unat B) mod 256 \<noteq> 0 \<longrightarrow>
            (\<exists>n. checksumByte (map unat B) = Some n \<and> 0 < n \<and> n < 256
               \<and> recvMessage loads a c True s
                   = (Msg (Some (''corrupt message, checksum '' @ py_str n)), s3)))
       \<and> (sum_list (map unat B) mod 256 = 0 \<longrightarrow>
            recvMessage loads a c True s
              = ((case loads (map unat (butlast B)) of None \<Rightarrow> RecvNOK | Some m \<Rightarrow> Parsed m), s3))
       \<and> (\<forall>V i b. i < length V \<and> sum_list (map unat V) mod 256 = 0
                  \<and> b \<noteq> V ! i \<and> B = V[i := b] \<longrightarrow>
            (\<exists>n. checksumByte (map unat B) = Some n \<and> 0 < n \<and> n < 256
               \<and> recvMessage loads a c True s
                   = (Msg (Some (''corrupt message, checksum '' @ py_str n)), s3)))"
proof (intro conjI impI allI)
  assume "sum_list (map unat B) mod 256 \<noteq> 0"
  with assms show "\<exists>n. checksumByte (map unat B) = Some n \<and> 0 < n \<and> n < 256
      \<and> recvMessage loads a c True s = (Msg (Some (''corrupt message, checksum '' @ py_str n)), s3)"
    by (rule recvMessage_corrupt)
next
  assume "sum_list (map unat B) mod 256 = 0"
  then show "recvMessage loads a c True s
      = ((case loads (map unat (butlast B)) of None \<Rightarrow> RecvNOK | Some m \<Rightarrow> Parsed m), s3)"
    by (simp add: recvMessage_read [OF assms] decode_received_checksum)
next
  fix V i b
  assume h: "i < length V \<and> sum_list (map unat V) mod 256 = 0 \<and> b \<noteq> V ! i \<and> B = V[i := b]"
  then have eq: "B = V[i := b]" by (elim conjE)
  from h have "sum_list (map unat (V[i := b])) mod 256 \<noteq> 0"
    by (intro unat_update_sum) simp_all
  then have "sum_list (map unat B) mod 256 \<noteq> 0" unfolding eq .
  with assms show "\<exists>n. checksumByte (map unat B) = Some n \<and> 0 < n \<and> n < 256
      \<and> recvMessage loads a c True s = (Msg (Some (''corrupt message, checksum '' @ py_str n)), s3)"
    by (rule recvMessage_corrupt)
qed


theorem recvMessage_checksum_witness:
  "fst (recvMessage Some 0 6 True (bench_driver False [Some [123, 125, 0x09]]))
     = Msg (Some ''corrupt message, checksum 255'')
   \<and> fst (recvMessage Some 0 6 True (bench_driver False [Some [123, 125, 0x08]]))
     = Parsed [123, 125]"
proof -
  let ?bad = "bench_driver False [Some [123, 125, 0x09]]"
  let ?good = "bench_driver False [Some [123, 125, 0x08]]"
  have tm: "setTransmissionMode (transmission_for 0 6 (bench_driver False rx)) (bench_driver False rx)
      = bench_driver False rx" for rx
    by (simp add: setTransmissionMode_def transmission_for_def bench_driver_def default_config_def)
  have rb: "serdev_read (setOperationMode ''normal''
        (setTransmissionMode (transmission_for 0 6 ?bad) ?bad))
      = (Some [123, 125, 0x09], (setOperationMode ''normal'' ?bad)\<lparr>pending := []\<rparr>)"
    unfolding tm by (simp add: serdev_read_def bench_driver_def)
  have rg: "serdev_read (setOperationMode ''normal''
        (setTransmissionMode (transmission_for 0 6 ?good) ?good))
      = (Some [123, 125, 0x08], (setOperationMode ''normal'' ?good)\<lparr>pending := []\<rparr>)"
    unfolding tm by (simp add: serdev_read_def bench_driver_def)
  have sb: "sum_list (map unat [123, 125, 0x09 :: byte]) mod 256 \<noteq> 0"
    and sg: "sum_list (map unat [123, 125, 0x08 :: byte]) mod 256 = 0"
    by simp_all
  have cb: "checksumByte (map unat [123, 125, 0x09 :: byte]) = Some 255" by code_simp
  have str: "py_str 255 = ''255''" by code_simp
  from recvMessage_checksum [OF rb, of Some] sb cb str
  have "fst (recvMessage Some 0 6 True ?bad) = Msg (Some ''corrupt message, checksum 255'')"
    by auto
  moreover from recvMessage_checksum [OF rg, of Some] sg
  have "fst (recvMessage Some 0 6 True ?good) = Parsed [123, 125]"
    by auto
  ultimately show ?thesis by (rule conjI)
qed

end
